theory Spec2Isabelle
  imports Complex_Main
begin

section \<open>Brief-Case: the embedding of the source\<close>

text \<open>
  The repository is a browser-side layer between the pages of a legal-services marketplace
  and a hosted backend. The pure helpers (\<open>calculateTotalFee\<close>, \<open>validateCardNumber\<close>,
  \<open>isValidEmail\<close>) are embedded as HOL functions. The operations that write to the backend
  take the tables they touch and return them updated, next to their result object; what the
  backend and the clock supply to a call is an explicit argument. JavaScript numbers are
  modelled by exact rationals, \<open>Math.round\<close> by rounding half up, and strings by lists of
  8-bit characters.
\<close>

subsection \<open>Fee calculation (payment.js)\<close>




subsection \<open>Card number validation (payment.js)\<close>

definition is_digit :: "char \<Rightarrow> bool" where
  "is_digit c = (48 \<le> (of_char c :: nat) \<and> (of_char c :: nat) \<le> 57)"

text \<open>\<open>cardNumber.replace(/\D/g, '')\<close> keeps the ASCII digits.\<close>

definition strip_non_digits :: "string \<Rightarrow> string" where
  "strip_non_digits cardNumber = filter is_digit cardNumber"

text \<open>\<open>parseInt\<close> of a one-character digit string.\<close>

definition parseInt_digit :: "char \<Rightarrow> nat" where
  "parseInt_digit c = (of_char c :: nat) - 48"

text \<open>
  The loop \<open>for (let i = digits.length - 1; i >= 0; i--)\<close>. The first argument after the
  string is \<open>i + 1\<close>, so the loop ends when it reaches \<open>0\<close> (\<open>sm\<close> is the source's
  \<open>sum\<close>); the index read is always
  below the length when the loop starts at \<open>length digits\<close>.
\<close>

fun luhn_loop :: "string \<Rightarrow> nat \<Rightarrow> nat \<Rightarrow> bool \<Rightarrow> nat" where
  "luhn_loop digits 0 sm isEven = sm"
| "luhn_loop digits (Suc i) sm isEven =
     (let digit = parseInt_digit (digits ! i);
          digit = (if isEven
                   then (let doubled = digit * 2 in if doubled > 9 then doubled - 9 else doubled)
                   else digit)
      in luhn_loop digits i (sm + digit) (\<not> isEven))"

definition validateCardNumber :: "string \<Rightarrow> bool" where
  "validateCardNumber cardNumber =
     (let digits = strip_non_digits cardNumber
      in if length digits < 13 \<or> length digits > 19 then False
         else luhn_loop digits (length digits) 0 False mod 10 = 0)"

text \<open>
  The Luhn checksum as the specification words it: going from the rightmost digit to the
  left, every second digit is doubled, 9 is subtracted from a doubled digit above 9, and
  the digits are added up; the number passes when the sum is a multiple of 10. The list is
  the digit values from right to left, the flag says whether the head is a doubled one.
\<close>

fun luhn_sum :: "bool \<Rightarrow> nat list \<Rightarrow> nat" where
  "luhn_sum doubled [] = 0"
| "luhn_sum doubled (d # ds) =
     (if doubled then (if 2 * d > 9 then 2 * d - 9 else 2 * d) else d) + luhn_sum (\<not> doubled) ds"

definition luhn_passes :: "string \<Rightarrow> bool" where
  "luhn_passes digits = (luhn_sum False (rev (map parseInt_digit digits)) mod 10 = 0)"

subsection \<open>The backend\<close>

text \<open>
  The backend is an external service, reached through its query client. A table is modelled
  as the list of its rows. Each awaited call settles with an object \<open>{data, error}\<close>; an
  error is represented by its message. The \<open>fault\<close> argument of a call is the environment's
  choice for that call: \<open>Some msg\<close> when the backend refuses or cannot be reached (it then
  reports \<open>msg\<close> and the table is as before), \<open>None\<close> when it runs the statement. A filter
  chain (\<open>.eq(...)\<close>, \<open>.neq(...)\<close>) is the predicate \<open>cond\<close> on rows.
\<close>

datatype 'a response = Response (resp_data: "'a option") (resp_error: "string option")

definition db_select :: "string option \<Rightarrow> ('r \<Rightarrow> bool) \<Rightarrow> 'r list \<Rightarrow> 'r list response" where
  "db_select fault cond tbl =
     (case fault of
        Some msg \<Rightarrow> Response None (Some msg)
      | None \<Rightarrow> Response (Some (filter cond tbl)) None)"

text \<open>\<open>.insert(row)\<close>, answering with the inserted row.\<close>

definition db_insert :: "string option \<Rightarrow> 'r \<Rightarrow> 'r list \<Rightarrow> 'r list response \<times> 'r list" where
  "db_insert fault row tbl =
     (case fault of
        Some msg \<Rightarrow> (Response None (Some msg), tbl)
      | None \<Rightarrow> (Response (Some [row]) None, tbl @ [row]))"

text \<open>\<open>.update(patch)\<close> on the rows that pass the filter, answering with the updated rows.\<close>

definition db_update ::
  "string option \<Rightarrow> ('r \<Rightarrow> bool) \<Rightarrow> ('r \<Rightarrow> 'r) \<Rightarrow> 'r list \<Rightarrow> 'r list response \<times> 'r list" where
  "db_update fault cond patch tbl =
     (case fault of
        Some msg \<Rightarrow> (Response None (Some msg), tbl)
      | None \<Rightarrow> (Response (Some (map patch (filter cond tbl))) None,
                 map (\<lambda>r. if cond r then patch r else r) tbl))"

text \<open>\<open>.delete()\<close> of the rows that pass the filter, answering with the deleted rows.\<close>

definition db_delete ::
  "string option \<Rightarrow> ('r \<Rightarrow> bool) \<Rightarrow> 'r list \<Rightarrow> 'r list response \<times> 'r list" where
  "db_delete fault cond tbl =
     (case fault of
        Some msg \<Rightarrow> (Response None (Some msg), tbl)
      | None \<Rightarrow> (Response (Some (filter cond tbl)) None, filter (\<lambda>r. \<not> cond r) tbl))"

text \<open>
  \<open>.single()\<close> asks for exactly one row and reports an error for none or several;
  \<open>.maybeSingle()\<close> answers \<open>data: null\<close> without an error when there is none.
\<close>

definition single :: "'r list response \<Rightarrow> 'r response" where
  "single resp =
     (case resp of
        Response _ (Some msg) \<Rightarrow> Response None (Some msg)
      | Response (Some [r]) None \<Rightarrow> Response (Some r) None
      | Response _ None \<Rightarrow>
          Response None (Some ''JSON object requested, multiple (or no) rows returned''))"

definition maybeSingle :: "'r list response \<Rightarrow> 'r response" where
  "maybeSingle resp =
     (case resp of
        Response _ (Some msg) \<Rightarrow> Response None (Some msg)
      | Response (Some [r]) None \<Rightarrow> Response (Some r) None
      | Response (Some (r # r' # rs)) None \<Rightarrow>
          Response None (Some ''JSON object requested, multiple (or no) rows returned'')
      | Response _ None \<Rightarrow> Response None None)"

text \<open>
  The result objects of the public operations: \<open>{success: true, ...}\<close> with its payload, or
  \<open>{success: false, error}\<close> from the \<open>catch\<close> block.
\<close>

datatype 'a result = Success 'a | Failure string

text \<open>JavaScript truthiness of an optional string: \<open>undefined\<close> and \<open>''\<close> are falsy.\<close>

definition falsy :: "string option \<Rightarrow> bool" where
  "falsy v = (case v of None \<Rightarrow> True | Some s \<Rightarrow> s = [])"

subsection \<open>Appointments (cancel, delete)\<close>

record appointment =
  appt_id :: string
  appt_client_id :: string
  appt_lawyer_id :: string
  appointment_date :: string
  appointment_time :: string
  appt_title :: string
  appt_description :: "string option"
  meeting_type :: "string option"
  appt_status :: string

text \<open>
  \<open>updateAppointment(appointmentId, updates)\<close>: the \<open>updates\<close> object is the function that
  overwrites the columns it names.
\<close>

definition updateAppointment ::
  "string option \<Rightarrow> string \<Rightarrow> (appointment \<Rightarrow> appointment) \<Rightarrow> appointment list
     \<Rightarrow> appointment option result \<times> appointment list" where
  "updateAppointment fault appointmentId updates appointments =
     (case db_update fault (\<lambda>r. appt_id r = appointmentId) updates appointments of
        (resp, appointments') \<Rightarrow>
          (case single resp of
             Response _ (Some msg) \<Rightarrow> (Failure msg, appointments')
           | Response d None \<Rightarrow> (Success d, appointments')))"

definition cancelAppointment ::
  "string option \<Rightarrow> string \<Rightarrow> appointment list \<Rightarrow> appointment option result \<times> appointment list" where
  "cancelAppointment fault appointmentId appointments =
     updateAppointment fault appointmentId (\<lambda>r. r\<lparr>appt_status := ''cancelled''\<rparr>) appointments"

definition deleteAppointment ::
  "string option \<Rightarrow> string \<Rightarrow> appointment list \<Rightarrow> unit result \<times> appointment list" where
  "deleteAppointment fault appointmentId appointments =
     (case db_delete fault (\<lambda>r. appt_id r = appointmentId) appointments of
        (resp, appointments') \<Rightarrow>
          (case resp of
             Response _ (Some msg) \<Rightarrow> (Failure msg, appointments')
           | Response None None \<Rightarrow>
               (Failure ''Could not delete appointment. Check permissions.'', appointments')
           | Response (Some []) None \<Rightarrow>
               (Failure ''Could not delete appointment. Check permissions.'', appointments')
           | Response (Some (r # rs)) None \<Rightarrow> (Success (), appointments')))"

subsection \<open>Payment processing (payment.js)\<close>

text \<open>\<open>s.toUpperCase()\<close>, on the ASCII letters.\<close>

definition upper_char :: "char \<Rightarrow> char" where
  "upper_char c =
     (case map_of (zip ''abcdefghijklmnopqrstuvwxyz'' ''ABCDEFGHIJKLMNOPQRSTUVWXYZ'') c of
        Some u \<Rightarrow> u
      | None \<Rightarrow> c)"

definition toUpperCase :: "string \<Rightarrow> string" where
  "toUpperCase s = map upper_char s"

text \<open>
  The digits of base 36 as \<open>Number.prototype.toString(36)\<close> writes them, and in upper case.
\<close>

definition base36_lower :: "char \<Rightarrow> bool" where
  "base36_lower c = (c \<in> set ''0123456789abcdefghijklmnopqrstuvwxyz'')"

definition base36_upper :: "char \<Rightarrow> bool" where
  "base36_upper c = (c \<in> set ''0123456789ABCDEFGHIJKLMNOPQRSTUVWXYZ'')"

text \<open>\<open>s.substring(a, b)\<close> for \<open>a \<le> b\<close>.\<close>

definition substring :: "nat \<Rightarrow> nat \<Rightarrow> string \<Rightarrow> string" where
  "substring a b s = take (b - a) (drop a s)"

text \<open>The decimal digits of a natural number, as a template literal prints it.\<close>

fun show_nat :: "nat \<Rightarrow> string" where
  "show_nat n =
     (if n < 10 then [''0123456789'' ! n]
      else show_nat (n div 10) @ [''0123456789'' ! (n mod 10)])"

text \<open>
  \<open>generateTransactionId()\<close>: \<open>timestamp\<close> is what \<open>Date.now()\<close> returns and \<open>random36\<close> is
  the string \<open>Math.random().toString(36)\<close>, both supplied by the environment.
\<close>

definition generateTransactionId :: "nat \<Rightarrow> string \<Rightarrow> string" where
  "generateTransactionId timestamp random36 =
     (let random = toUpperCase (substring 2 9 random36)
      in ''TXN-'' @ show_nat timestamp @ ''-'' @ random)"

record paymentData =
  pd_amount :: "rat option"
  pd_appointmentId :: "string option"
  pd_currency :: "string option"
  pd_paymentMethod :: "string option"

record paymentRecord =
  pr_appointment_id :: string
  pr_amount :: rat
  pr_currency :: string
  pr_payment_method :: "string option"
  pr_status :: string
  pr_transaction_id :: string
  pr_payment_date :: string

text \<open>What the environment supplies to one run of \<open>processPayment\<close>.\<close>

record payment_env =
  pe_timestamp :: nat
  pe_random36 :: string
  pe_date_iso :: string
  pe_update_fault :: "string option"

text \<open>
  \<open>processPayment(paymentData)\<close>. The success payload is the pair of \<open>transactionId\<close> and
  \<open>paymentRecord\<close>. The two-second delay has no effect on the result and is left out.
\<close>

definition processPayment ::
  "payment_env \<Rightarrow> paymentData \<Rightarrow> appointment list
     \<Rightarrow> (string \<times> paymentRecord) result \<times> appointment list" where
  "processPayment env pd appointments =
     (case pd_amount pd of
        None \<Rightarrow> (Failure ''Invalid payment amount'', appointments)
      | Some amount \<Rightarrow>
          if amount = 0 \<or> amount \<le> 0 then (Failure ''Invalid payment amount'', appointments)
          else
            (case pd_appointmentId pd of
               None \<Rightarrow> (Failure ''Appointment ID required'', appointments)
             | Some appointmentId \<Rightarrow>
                 if appointmentId = [] then (Failure ''Appointment ID required'', appointments)
                 else
                   let record = \<lparr>pr_appointment_id = appointmentId,
                                 pr_amount = amount,
                                 pr_currency = (if falsy (pd_currency pd) then ''PKR''
                                                else (case pd_currency pd of Some c \<Rightarrow> c | None \<Rightarrow> ''PKR'')),
                                 pr_payment_method = pd_paymentMethod pd,
                                 pr_status = ''completed'',
                                 pr_transaction_id =
                                   generateTransactionId (pe_timestamp env) (pe_random36 env),
                                 pr_payment_date = pe_date_iso env\<rparr>
                   in (case db_update (pe_update_fault env) (\<lambda>r. appt_id r = appointmentId)
                               (\<lambda>r. r\<lparr>appt_status := ''confirmed''\<rparr>) appointments of
                         (resp, appointments') \<Rightarrow>
                           (case resp_error resp of
                              Some msg \<Rightarrow> (Failure msg, appointments')
                            | None \<Rightarrow>
                                (Success (pr_transaction_id record, record), appointments')))))"

subsection \<open>Messages (messaging.js)\<close>

record message =
  msg_id :: string
  msg_conversation_id :: string
  msg_sender_id :: string
  message_text :: string
  attachment_url :: "string option"
  attachment_name :: "string option"
  attachment_type :: "string option"
  msg_created_at :: string
  is_read :: bool
  read_at :: "string option"

text \<open>
  \<open>markMessagesAsRead(conversationId, userId)\<close>; \<open>now\<close> is \<open>new Date().toISOString()\<close>.
\<close>

definition markMessagesAsRead ::
  "string option \<Rightarrow> string \<Rightarrow> string \<Rightarrow> string \<Rightarrow> message list \<Rightarrow> unit result \<times> message list" where
  "markMessagesAsRead fault now conversationId userId messages =
     (case db_update fault
             (\<lambda>m. msg_conversation_id m = conversationId \<and> msg_sender_id m \<noteq> userId
                   \<and> is_read m = False)
             (\<lambda>m. m\<lparr>is_read := True, read_at := Some now\<rparr>) messages of
        (resp, messages') \<Rightarrow>
          (case resp_error resp of
             Some msg \<Rightarrow> (Failure msg, messages')
           | None \<Rightarrow> (Success (), messages')))"

subsection \<open>Reviews and the lawyer's rating\<close>


record lawyer =
  lawyer_id :: string
  bar_registration_no :: "string option"
  consultation_fee :: "rat option"
  consultation_type :: "string option"
  average_rating :: "rat option"
  total_reviews :: "nat option"
  biography :: "string option"
  law_firm :: "string option"





subsection \<open>Conversations (messaging.js)\<close>

record user_row =
  user_id :: string
  user_email :: string
  user_type :: "string option"
  first_name :: "string option"
  last_name :: "string option"
  profile_photo_url :: "string option"

record conversation =
  conv_id :: string
  conv_client_id :: string
  conv_lawyer_id :: string
  conv_created_at :: string
  last_message_at :: "string option"

text \<open>
  What the environment supplies to one run of \<open>getOrCreateConversation\<close>: the faults of its
  four backend calls, the id the backend gives an inserted row, and the clock.
\<close>

record conv_env =
  ce_user1_fault :: "string option"
  ce_user2_fault :: "string option"
  ce_find_fault :: "string option"
  ce_insert_fault :: "string option"
  ce_new_id :: string
  ce_now :: string

text \<open>\<open>profile?.user_type\<close>: \<open>undefined\<close> when the profile is \<open>null\<close>.\<close>

definition profile_user_type :: "user_row option \<Rightarrow> string option" where
  "profile_user_type profile = (case profile of None \<Rightarrow> None | Some u \<Rightarrow> user_type u)"

text \<open>
  Lines 46 to 58 of messaging.js: the pair \<open>(clientId, lawyerId)\<close>. The second profile is
  fetched and logged by the source, and not read by the decision.
\<close>

definition determine_roles ::
  "user_row option \<Rightarrow> user_row option \<Rightarrow> string \<Rightarrow> string \<Rightarrow> string \<times> string" where
  "determine_roles user1Profile user2Profile userId1 userId2 =
     (if profile_user_type user1Profile = Some ''client'' then (userId1, userId2)
      else if profile_user_type user1Profile = Some ''lawyer'' then (userId2, userId1)
      else (userId1, userId2))"

text \<open>
  Lines 30 to 58 as a whole: the two profile queries and the decision. The errors of the
  queries are not read by the source: only \<open>data\<close> is.
\<close>

definition resolved_roles :: "conv_env \<Rightarrow> string \<Rightarrow> string \<Rightarrow> user_row list \<Rightarrow> string \<times> string" where
  "resolved_roles env userId1 userId2 users =
     (let user1Profile =
            resp_data (single (db_select (ce_user1_fault env) (\<lambda>u. user_id u = userId1) users));
          user2Profile =
            resp_data (single (db_select (ce_user2_fault env) (\<lambda>u. user_id u = userId2) users))
      in determine_roles user1Profile user2Profile userId1 userId2)"

text \<open>
  \<open>getOrCreateConversation(userId1, userId2)\<close>. The error of the lookup is not read by the
  source either.
\<close>

definition getOrCreateConversation ::
  "conv_env \<Rightarrow> string \<Rightarrow> string \<Rightarrow> user_row list \<Rightarrow> conversation list
     \<Rightarrow> conversation result \<times> conversation list" where
  "getOrCreateConversation env userId1 userId2 users conversations =
     (let (clientId, lawyerId) = resolved_roles env userId1 userId2 users;
          existing =
            resp_data (maybeSingle (db_select (ce_find_fault env)
               (\<lambda>c. conv_client_id c = clientId \<and> conv_lawyer_id c = lawyerId) conversations))
      in case existing of
           Some found \<Rightarrow> (Success found, conversations)
         | None \<Rightarrow>
             (case db_insert (ce_insert_fault env)
                     \<lparr>conv_id = ce_new_id env, conv_client_id = clientId,
                      conv_lawyer_id = lawyerId, conv_created_at = ce_now env,
                      last_message_at = None\<rparr> conversations of
                (resp, conversations') \<Rightarrow>
                  (case single resp of
                     Response _ (Some msg) \<Rightarrow> (Failure msg, conversations')
                   | Response (Some newConv) None \<Rightarrow> (Success newConv, conversations')
                   | Response None None \<Rightarrow>
                       (Failure ''Cannot read properties of null'', conversations'))))"


subsection \<open>Signup (auth.js)\<close>

text \<open>
  Character classes of the regular expressions in the source: \<open>\s\<close> within 8-bit
  characters, \<open>[A-Z]\<close>, \<open>[a-z]\<close> and \<open>[0-9]\<close>.
\<close>

definition is_space :: "char \<Rightarrow> bool" where
  "is_space c = (c \<in> set [CHR 0x09, CHR 0x0A, CHR 0x0B, CHR 0x0C, CHR 0x0D, CHR '' '', CHR 0xA0])"

definition is_upper :: "char \<Rightarrow> bool" where
  "is_upper c = (c \<in> set ''ABCDEFGHIJKLMNOPQRSTUVWXYZ'')"

definition is_lower :: "char \<Rightarrow> bool" where
  "is_lower c = (c \<in> set ''abcdefghijklmnopqrstuvwxyz'')"

definition is_number :: "char \<Rightarrow> bool" where
  "is_number c = (c \<in> set ''0123456789'')"

text \<open>
  \<open>isValidEmail\<close> of supabase-client.js tests \<open>/^[^\s@]+@[^\s@]+\.[^\s@]+$/\<close>: no character
  of the first group is an \<open>@\<close>, so the \<open>@\<close> it matches is the first one of the string;
  what follows it must be free of white space and \<open>@\<close> and hold a dot that is neither its
  first nor its last character.
\<close>

definition email_char :: "char \<Rightarrow> bool" where
  "email_char c = (\<not> is_space c \<and> c \<noteq> CHR ''@'')"

definition isValidEmail :: "string \<Rightarrow> bool" where
  "isValidEmail email =
     (let local_part = takeWhile (\<lambda>c. c \<noteq> CHR ''@'') email;
          rest = dropWhile (\<lambda>c. c \<noteq> CHR ''@'') email
      in case rest of
           [] \<Rightarrow> False
         | c # host \<Rightarrow>
             local_part \<noteq> [] \<and> list_all email_char local_part \<and> list_all email_char host
             \<and> CHR ''.'' \<in> set (butlast (tl host)))"

text \<open>\<open>s.toLowerCase()\<close>, on the ASCII letters.\<close>

definition lower_char :: "char \<Rightarrow> char" where
  "lower_char c =
     (case map_of (zip ''ABCDEFGHIJKLMNOPQRSTUVWXYZ'' ''abcdefghijklmnopqrstuvwxyz'') c of
        Some l \<Rightarrow> l
      | None \<Rightarrow> c)"

definition toLowerCase :: "string \<Rightarrow> string" where
  "toLowerCase s = map lower_char s"

text \<open>\<open>s.includes(sub)\<close>, named \<open>js_includes\<close> here.\<close>

fun starts_with :: "string \<Rightarrow> string \<Rightarrow> bool" where
  "starts_with s [] = True"
| "starts_with [] (p # ps) = False"
| "starts_with (c # cs) (p # ps) = (c = p \<and> starts_with cs ps)"

fun js_includes :: "string \<Rightarrow> string \<Rightarrow> bool" where
  "js_includes [] sub = (sub = [])"
| "js_includes (c # cs) sub = (starts_with (c # cs) sub \<or> js_includes cs sub)"

text \<open>\<open>s.trim()\<close>, \<open>s.split(' ')\<close> and \<open>parts.join(' ')\<close>.\<close>

definition trim :: "string \<Rightarrow> string" where
  "trim s = rev (dropWhile is_space (rev (dropWhile is_space s)))"

fun split_space :: "string \<Rightarrow> string list" where
  "split_space [] = [[]]"
| "split_space (c # cs) =
     (if c = CHR '' '' then [] # split_space cs
      else (case split_space cs of
              [] \<Rightarrow> [[c]]
            | w # ws \<Rightarrow> (c # w) # ws))"

fun join_space :: "string list \<Rightarrow> string" where
  "join_space [] = []"
| "join_space [w] = w"
| "join_space (w # v # ws) = w @ '' '' @ join_space (v # ws)"

text \<open>
  An optional string inside a template literal (\<open>undefined\<close> prints as its name), and the
  string itself once a truthiness check has passed.
\<close>

definition js_string :: "string option \<Rightarrow> string" where
  "js_string v = (case v of None \<Rightarrow> ''undefined'' | Some s \<Rightarrow> s)"

definition str :: "string option \<Rightarrow> string" where
  "str v = (case v of None \<Rightarrow> [] | Some s \<Rightarrow> s)"

text \<open>
  The account side of the backend: the auth identities, the profile tables, and the log of
  the calls made to it. Every backend call the source makes appends to the log.
\<close>

record auth_user =
  au_id :: string
  au_email :: string
  au_confirmed_at :: "string option"
  au_identities :: "string list option"

datatype backend_call =
    Auth_admin_listUsers
  | Select_users_by_email string
  | Auth_signUp string
  | Storage_upload string
  | Insert_users string
  | Insert_lawyers string

record account_backend =
  auth_users :: "auth_user list"
  users_tbl :: "user_row list"
  lawyers_tbl :: "lawyer list"
  calls :: "backend_call list"

text \<open>What the backend answers during one signup, and the clock.\<close>

record signup_env =
  se_listUsers_rejects :: "string option"
  se_select_fault :: "string option"
  se_signUp_error :: "string option"
  se_signUp_user :: "auth_user option"
  se_upload_url :: "string option"
  se_users_insert_fault :: "string option"
  se_lawyers_insert_fault :: "string option"
  se_timestamp :: nat

text \<open>
  \<open>supabase.auth.signUp(...)\<close>: the pair \<open>(authData.user, authError)\<close>. An identity the
  backend returns without an error is one it holds from then on.
\<close>

definition auth_signUp ::
  "signup_env \<Rightarrow> string \<Rightarrow> account_backend
     \<Rightarrow> (auth_user option \<times> string option) \<times> account_backend" where
  "auth_signUp env email st =
     (let st' = st\<lparr>calls := calls st @ [Auth_signUp email]\<rparr>
      in case se_signUp_error env of
           Some msg \<Rightarrow> ((None, Some msg), st')
         | None \<Rightarrow>
             (case se_signUp_user env of
                None \<Rightarrow> ((None, None), st')
              | Some u \<Rightarrow> ((Some u, None), st'\<lparr>auth_users := auth_users st' @ [u]\<rparr>)))"

text \<open>
  \<open>checkEmailExists(email)\<close>: the pair \<open>(exists, user)\<close>. A rejected first call is caught by
  the function's own \<open>catch\<close>.
\<close>

definition checkEmailExists ::
  "signup_env \<Rightarrow> string \<Rightarrow> account_backend \<Rightarrow> (bool \<times> user_row option) \<times> account_backend" where
  "checkEmailExists env email st =
     (let st1 = st\<lparr>calls := calls st @ [Auth_admin_listUsers]\<rparr>
      in case se_listUsers_rejects env of
           Some msg \<Rightarrow> ((False, None), st1)
         | None \<Rightarrow>
             let st2 = st1\<lparr>calls := calls st1 @ [Select_users_by_email (toLowerCase email)]\<rparr>;
                 users = resp_data (maybeSingle (db_select (se_select_fault env)
                           (\<lambda>u. user_email u = toLowerCase email) (users_tbl st)))
             in ((users \<noteq> None, users), st2))"

record signup_params =
  sp_email :: "string option"
  sp_password :: "string option"
  sp_firstName :: "string option"
  sp_lastName :: "string option"
  sp_accountType :: "string option"
  sp_cnic :: "string option"
  sp_photo :: "string option"

text \<open>
  The result object of a signup: \<open>{success: true, needsConfirmation, message, user, email}\<close>
  (fields a path does not set are \<open>False\<close> or \<open>None\<close>), or \<open>{success: false, error}\<close>.
\<close>

datatype signup_result =
    SignupSuccess bool "string option" auth_user "string option"
  | SignupFailure string

text \<open>
  The body of the \<open>try\<close> block of \<open>signUpWithVerification(params)\<close>: \<open>Inl\<close> is the message of
  a thrown error, \<open>Inr\<close> the returned object.
\<close>

definition signUpWithVerification_try ::
  "signup_env \<Rightarrow> signup_params \<Rightarrow> account_backend
     \<Rightarrow> (string + signup_result) \<times> account_backend" where
  "signUpWithVerification_try env params st =
     (let email = sp_email params;
          password = sp_password params;
          accountType = sp_accountType params;
          cnic = sp_cnic params;
          fullName = js_string (sp_firstName params) @ '' '' @ js_string (sp_lastName params)
      in if falsy email \<or> falsy password \<or> fullName = [] \<or> falsy accountType \<or> falsy cnic
         then (Inl ''All fields are required'', st)
         else if \<not> isValidEmail (str email)
         then (Inl ''Invalid email format'', st)
         else if length (str password) < 8
         then (Inl ''Password must be at least 8 characters'', st)
         else if \<not> list_ex is_upper (str password)
         then (Inl ''Password must contain at least one uppercase letter'', st)
         else if \<not> list_ex is_lower (str password)
         then (Inl ''Password must contain at least one lowercase letter'', st)
         else if \<not> list_ex is_number (str password)
         then (Inl ''Password must contain at least one number'', st)
         else
           (case checkEmailExists env (str email) st of
              ((exists, existingUser), st1) \<Rightarrow>
                if exists
                then (Inl ''An account with this email already exists. Please login or use a different email.'', st1)
                else
                  (case auth_signUp env (str email) st1 of
                     ((user, Some msg), st2) \<Rightarrow>
                       if js_includes msg ''User already registered''
                       then (Inl ''An account with this email already exists. Please login or reset your password.'', st2)
                       else (Inl msg, st2)
                   | ((None, None), st2) \<Rightarrow> (Inl ''Failed to create user account'', st2)
                   | ((Some u, None), st2) \<Rightarrow>
                       if au_identities u = Some []
                       then (Inr (SignupSuccess True
                               (Some ''A verification email has been sent. Please check your email to verify your account.'')
                               u email), st2)
                       else (Inr (SignupSuccess True
                               (Some ''Please check your email to verify your account before logging in.'')
                               u email), st2))))"

text \<open>The \<open>catch\<close> block of \<open>signUpWithVerification\<close>: the message shown for a caught error.\<close>

definition verification_error_message :: "string \<Rightarrow> string" where
  "verification_error_message msg =
     (if js_includes msg ''duplicate key'' \<or> js_includes msg ''already exists''
      then ''An account with this email already exists. Please login or use a different email.''
      else if js_includes msg ''User already registered''
      then ''An account with this email already exists. Please login or reset your password.''
      else if js_includes msg ''violates foreign key constraint''
      then ''Database configuration error. Please contact support.''
      else if js_includes msg ''permission denied''
      then ''Database permission error. Please contact support.''
      else msg)"

definition signUpWithVerification ::
  "signup_env \<Rightarrow> signup_params \<Rightarrow> account_backend \<Rightarrow> signup_result \<times> account_backend" where
  "signUpWithVerification env params st =
     (case signUpWithVerification_try env params st of
        (Inl msg, st') \<Rightarrow> (SignupFailure (verification_error_message msg), st')
      | (Inr res, st') \<Rightarrow> (res, st'))"

text \<open>
  The body of the \<open>try\<close> block of the legacy
  \<open>signUp(email, password, fullName, accountType, cnic, profilePhoto = null)\<close>; the photo is
  represented by its file name. \<open>uploadFile\<close> of supabase-client.js catches its own errors
  and returns the public URL or \<open>null\<close>.
\<close>

definition signUp_try ::
  "signup_env \<Rightarrow> string option \<Rightarrow> string option \<Rightarrow> string option \<Rightarrow> string option
     \<Rightarrow> string option \<Rightarrow> string option \<Rightarrow> account_backend
     \<Rightarrow> (string + signup_result) \<times> account_backend" where
  "signUp_try env email password fullName accountType cnic profilePhoto st =
     (if falsy email \<or> falsy password \<or> falsy fullName \<or> falsy accountType \<or> falsy cnic
      then (Inl ''All fields are required'', st)
      else if \<not> isValidEmail (str email)
      then (Inl ''Invalid email format'', st)
      else if length (str password) < 6
      then (Inl ''Password must be at least 6 characters'', st)
      else
        (case auth_signUp env (str email) st of
           ((user, Some msg), st1) \<Rightarrow> (Inl msg, st1)
         | ((None, None), st1) \<Rightarrow> (Inl ''Failed to create user account'', st1)
         | ((Some u, None), st1) \<Rightarrow>
             if au_confirmed_at u = None \<and> (au_identities u = None \<or> au_identities u = Some [])
             then (Inr (SignupSuccess True
                     (Some ''Please check your email to confirm your account.'') u None), st1)
             else
               let userId = au_id u;
                   (profilePhotoUrl, st2) =
                     (case profilePhoto of
                        None \<Rightarrow> (None, st1)
                      | Some name \<Rightarrow>
                          (se_upload_url env,
                           st1\<lparr>calls := calls st1 @
                              [Storage_upload (userId @ ''/'' @ show_nat (se_timestamp env)
                                               @ ''_'' @ name)]\<rparr>));
                   nameParts = split_space (trim (str fullName));
                   firstName = (case nameParts of [] \<Rightarrow> [] | w # ws \<Rightarrow> w);
                   lastName = (if join_space (tl nameParts) = [] then firstName
                               else join_space (tl nameParts));
                   st3 = st2\<lparr>calls := calls st2 @ [Insert_users userId]\<rparr>
               in (case db_insert (se_users_insert_fault env)
                          \<lparr>user_id = userId, user_email = str email,
                           user_type = Some (toLowerCase (str accountType)),
                           first_name = Some firstName, last_name = Some lastName,
                           profile_photo_url = profilePhotoUrl\<rparr> (users_tbl st3) of
                     (Response d (Some msg), users') \<Rightarrow>
                       (Inl (''Failed to create user profile: '' @ msg), st3\<lparr>users_tbl := users'\<rparr>)
                   | (Response d None, users') \<Rightarrow>
                       let st4 = st3\<lparr>users_tbl := users'\<rparr>
                       in if toLowerCase (str accountType) = ''lawyer''
                          then
                            (let st5 = st4\<lparr>calls := calls st4 @ [Insert_lawyers userId]\<rparr>
                             in case db_insert (se_lawyers_insert_fault env)
                                       \<lparr>lawyer_id = userId, bar_registration_no = Some (str cnic),
                                        consultation_fee = None, consultation_type = None,
                                        average_rating = None, total_reviews = None,
                                        biography = None, law_firm = None\<rparr> (lawyers_tbl st5) of
                                  (Response d' (Some msg), lawyers') \<Rightarrow>
                                    (Inl (''Failed to create lawyer profile: '' @ msg),
                                     st5\<lparr>lawyers_tbl := lawyers'\<rparr>)
                                | (Response d' None, lawyers') \<Rightarrow>
                                    (Inr (SignupSuccess False None u None),
                                     st5\<lparr>lawyers_tbl := lawyers'\<rparr>))
                          else (Inr (SignupSuccess False None u None), st4))))"

definition legacy_error_message :: "string \<Rightarrow> string" where
  "legacy_error_message msg =
     (if js_includes msg ''duplicate key'' \<or> js_includes msg ''already exists''
      then ''An account with this email already exists''
      else if js_includes msg ''violates foreign key constraint''
      then ''Database configuration error. Please contact support.''
      else if js_includes msg ''permission denied''
      then ''Database permission error. Please contact support.''
      else msg)"

definition signUp ::
  "signup_env \<Rightarrow> string option \<Rightarrow> string option \<Rightarrow> string option \<Rightarrow> string option
     \<Rightarrow> string option \<Rightarrow> string option \<Rightarrow> account_backend
     \<Rightarrow> signup_result \<times> account_backend" where
  "signUp env email password fullName accountType cnic profilePhoto st =
     (case signUp_try env email password fullName accountType cnic profilePhoto st of
        (Inl msg, st') \<Rightarrow> (SignupFailure (legacy_error_message msg), st')
      | (Inr res, st') \<Rightarrow> (res, st'))"

text \<open>
  The validation of the two signup paths as the specification lists it: a missing field, a
  malformed email, a weak password.
\<close>

definition weak_password :: "string \<Rightarrow> bool" where
  "weak_password password =
     (length password < 8 \<or> \<not> list_ex is_upper password \<or> \<not> list_ex is_lower password
      \<or> \<not> list_ex is_number password)"

subsection \<open>Collection fetches\<close>


















text \<open>A lawyer row as \<open>searchLawyers\<close> selects it: the lawyer's columns, the joined user,
  and for each practice-area link the name of its practice area (\<open>None\<close> for a link whose
  \<open>practice_areas\<close> is \<open>null\<close>).\<close>

record lawyer_user =
  lu_id :: string
  lu_email :: string
  lu_first_name :: "string option"
  lu_last_name :: "string option"
  lu_profile_photo_url :: "string option"

record lawyer_row = lawyer +
  lr_users :: "lawyer_user option"
  lawyer_practice_areas :: "string option list option"











section \<open>Properties\<close>

subsection \<open>Fee calculation\<close>





subsection \<open>Card number validation\<close>

lemma luhn_loop_sum:
  "i \<le> length digits \<Longrightarrow>
   luhn_loop digits i s e = s + luhn_sum e (rev (map parseInt_digit (take i digits)))"
proof (induction i arbitrary: s e)
  case 0
  then show ?case by simp
next
  case (Suc i)
  then have lt: "i < length digits" by simp
  define d where "d = parseInt_digit (digits ! i)"
  define v where "v = (if e then (if 2 * d > 9 then 2 * d - 9 else 2 * d) else d)"
  have tk: "rev (map parseInt_digit (take (Suc i) digits)) =
            d # rev (map parseInt_digit (take i digits))"
    using lt by (simp add: take_Suc_conv_app_nth d_def)
  have step: "luhn_loop digits (Suc i) s e = luhn_loop digits i (s + v) (\<not> e)"
    by (simp add: Let_def d_def v_def mult.commute)
  have "luhn_loop digits i (s + v) (\<not> e) =
        (s + v) + luhn_sum (\<not> e) (rev (map parseInt_digit (take i digits)))"
    using Suc.IH [of "s + v" "\<not> e"] lt by simp
  then show ?case
    unfolding step tk by (simp add: v_def)
qed

text \<open>
  C3: \<open>validateCardNumber\<close> strips every character that is not a digit and returns true
  exactly when the remaining digit string has between 13 and 19 digits and passes the Luhn
  checksum. \<open>"4532015112830366"\<close> is accepted, \<open>"1234567890123"\<close> is rejected, and an
  input with fewer than 13 or more than 19 digits is rejected whatever its checksum.
\<close>

theorem validateCardNumber_luhn:
  "(validateCardNumber cardNumber \<longleftrightarrow>
      13 \<le> length (strip_non_digits cardNumber) \<and>
      length (strip_non_digits cardNumber) \<le> 19 \<and>
      luhn_passes (strip_non_digits cardNumber))
   \<and> list_all is_digit (strip_non_digits cardNumber)
   \<and> validateCardNumber ''4532015112830366''
   \<and> \<not> validateCardNumber ''1234567890123''
   \<and> (length (strip_non_digits cardNumber) < 13 \<or> 19 < length (strip_non_digits cardNumber)
        \<longrightarrow> \<not> validateCardNumber cardNumber)"
proof -
  have a: "validateCardNumber cardNumber \<longleftrightarrow>
      13 \<le> length (strip_non_digits cardNumber) \<and>
      length (strip_non_digits cardNumber) \<le> 19 \<and>
      luhn_passes (strip_non_digits cardNumber)"
    using luhn_loop_sum [of "length (strip_non_digits cardNumber)" "strip_non_digits cardNumber" 0 False]
    by (auto simp: validateCardNumber_def luhn_passes_def Let_def)
  have b: "list_all is_digit (strip_non_digits cardNumber)"
    by (simp add: strip_non_digits_def list_all_iff)
  have c: "validateCardNumber ''4532015112830366''" by code_simp
  have d: "\<not> validateCardNumber ''1234567890123''" by code_simp
  from a b c d show ?thesis by auto
qed

theorem validateCardNumber_luhn_witness:
  "length (strip_non_digits ''4532-0151-1283'') < 13 \<and> \<not> validateCardNumber ''4532-0151-1283''
   \<and> validateCardNumber ''4532 0151 1283 0366''"
proof -
  have h: "length (strip_non_digits ''4532-0151-1283'') < 13" by code_simp
  have v: "validateCardNumber ''4532 0151 1283 0366''" by code_simp
  from h v validateCardNumber_luhn [of "''4532-0151-1283''"] show ?thesis by blast
qed

subsection \<open>Cancelling and deleting an appointment\<close>

lemma cancelAppointment_table:
  "snd (cancelAppointment fault aid tbl) =
     (if fault = None
      then map (\<lambda>r. if appt_id r = aid then r\<lparr>appt_status := ''cancelled''\<rparr> else r) tbl
      else tbl)"
  by (auto simp: cancelAppointment_def updateAppointment_def db_update_def single_def
           split: option.splits response.splits list.splits prod.splits)

lemma cancelAppointment_result:
  "filter (\<lambda>r. appt_id r = aid) tbl = [r] \<Longrightarrow>
   fst (cancelAppointment None aid tbl) = Success (Some (r\<lparr>appt_status := ''cancelled''\<rparr>))"
  by (simp add: cancelAppointment_def updateAppointment_def db_update_def single_def)

lemma deleteAppointment_table:
  "snd (deleteAppointment fault aid tbl) =
     (if fault = None then filter (\<lambda>r. appt_id r \<noteq> aid) tbl else tbl)"
  by (auto simp: deleteAppointment_def db_delete_def
           split: option.splits response.splits list.splits prod.splits)

lemma deleteAppointment_result:
  "fst (deleteAppointment None aid tbl) =
     (if aid \<in> appt_id ` set tbl then Success ()
      else Failure ''Could not delete appointment. Check permissions.'')"
proof (cases "filter (\<lambda>r. appt_id r = aid) tbl")
  case Nil
  then have "aid \<notin> appt_id ` set tbl"
    by (auto simp: filter_empty_conv)
  with Nil show ?thesis
    by (simp add: deleteAppointment_def db_delete_def)
next
  case (Cons r rs)
  then have "r \<in> set (filter (\<lambda>r. appt_id r = aid) tbl)" by simp
  then have "aid \<in> appt_id ` set tbl" by auto
  with Cons show ?thesis
    by (simp add: deleteAppointment_def db_delete_def)
qed

text \<open>
  C8: \<open>cancelAppointment\<close> sets the status of the rows with the given id to \<open>'cancelled'\<close> and
  changes nothing else: the table keeps its rows in order, every column but the status is as
  before, and rows with another id are untouched; it answers with the updated row when the
  id names one row. \<open>deleteAppointment\<close> removes the rows with the given id and leaves the
  others as they were; no row with that id remains, and the table gets shorter when the id
  was there, while cancelling keeps its length. When the backend reports an error, neither
  changes the table.
\<close>

theorem cancel_soft_delete_hard:
  "snd (cancelAppointment fault aid tbl) =
     (if fault = None
      then map (\<lambda>r. if appt_id r = aid then r\<lparr>appt_status := ''cancelled''\<rparr> else r) tbl
      else tbl)
   \<and> map appt_id (snd (cancelAppointment fault aid tbl)) = map appt_id tbl
   \<and> map (\<lambda>r. r\<lparr>appt_status := []\<rparr>) (snd (cancelAppointment fault aid tbl)) =
       map (\<lambda>r. r\<lparr>appt_status := []\<rparr>) tbl
   \<and> filter (\<lambda>r. appt_id r \<noteq> aid) (snd (cancelAppointment fault aid tbl)) =
       filter (\<lambda>r. appt_id r \<noteq> aid) tbl
   \<and> (filter (\<lambda>r. appt_id r = aid) tbl = [row] \<longrightarrow>
        fst (cancelAppointment None aid tbl) =
          Success (Some (row\<lparr>appt_status := ''cancelled''\<rparr>)))
   \<and> snd (deleteAppointment fault aid tbl) =
       (if fault = None then filter (\<lambda>r. appt_id r \<noteq> aid) tbl else tbl)
   \<and> aid \<notin> appt_id ` set (snd (deleteAppointment None aid tbl))
   \<and> set (snd (deleteAppointment fault aid tbl)) \<subseteq> set tbl
   \<and> (aid \<in> appt_id ` set tbl \<longrightarrow>
        length (snd (deleteAppointment None aid tbl)) < length tbl
        \<and> length (snd (cancelAppointment None aid tbl)) = length tbl)
   \<and> fst (deleteAppointment None aid tbl) =
       (if aid \<in> appt_id ` set tbl then Success ()
        else Failure ''Could not delete appointment. Check permissions.'')"
proof -
  have ids: "map appt_id (snd (cancelAppointment fault aid tbl)) = map appt_id tbl"
    unfolding cancelAppointment_table by (induction tbl) auto
  have blank: "map (\<lambda>r. r\<lparr>appt_status := []\<rparr>) (snd (cancelAppointment fault aid tbl)) =
       map (\<lambda>r. r\<lparr>appt_status := []\<rparr>) tbl"
    unfolding cancelAppointment_table by (induction tbl) auto
  have others: "filter (\<lambda>r. appt_id r \<noteq> aid) (snd (cancelAppointment fault aid tbl)) =
       filter (\<lambda>r. appt_id r \<noteq> aid) tbl"
    unfolding cancelAppointment_table by (induction tbl) auto
  have gone: "aid \<notin> appt_id ` set (snd (deleteAppointment None aid tbl))"
    unfolding deleteAppointment_table by auto
  have kept: "set (snd (deleteAppointment fault aid tbl)) \<subseteq> set tbl"
    unfolding deleteAppointment_table by auto
  have fewer: "aid \<in> appt_id ` set tbl \<longrightarrow>
        length (snd (deleteAppointment None aid tbl)) < length tbl
        \<and> length (snd (cancelAppointment None aid tbl)) = length tbl"
  proof
    assume "aid \<in> appt_id ` set tbl"
    then obtain r where "r \<in> set tbl" "\<not> appt_id r \<noteq> aid" by auto
    then have "length (filter (\<lambda>r. appt_id r \<noteq> aid) tbl) < length tbl"
      by (rule length_filter_less)
    then show "length (snd (deleteAppointment None aid tbl)) < length tbl
        \<and> length (snd (cancelAppointment None aid tbl)) = length tbl"
      by (simp add: deleteAppointment_table cancelAppointment_table)
  qed
  show ?thesis
    using ids blank others gone kept fewer cancelAppointment_table [of fault aid tbl]
      cancelAppointment_result [of aid tbl row] deleteAppointment_table [of fault aid tbl]
      deleteAppointment_result [of aid tbl]
    by blast
qed

theorem cancel_soft_delete_hard_witness:
  "(let a1 = \<lparr>appt_id = ''a1'', appt_client_id = ''c1'', appt_lawyer_id = ''l1'',
              appointment_date = ''2025-03-01'', appointment_time = ''10:00'',
              appt_title = ''Consultation'', appt_description = None,
              meeting_type = Some ''video'', appt_status = ''scheduled''\<rparr>;
        a2 = \<lparr>appt_id = ''a2'', appt_client_id = ''c2'', appt_lawyer_id = ''l1'',
              appointment_date = ''2025-03-02'', appointment_time = ''11:00'',
              appt_title = ''Consultation'', appt_description = None,
              meeting_type = None, appt_status = ''confirmed''\<rparr>
    in filter (\<lambda>r. appt_id r = ''a1'') [a1, a2] = [a1]
       \<and> cancelAppointment None ''a1'' [a1, a2] =
           (Success (Some (a1\<lparr>appt_status := ''cancelled''\<rparr>)),
            [a1\<lparr>appt_status := ''cancelled''\<rparr>, a2])
       \<and> deleteAppointment None ''a1'' [a1, a2] = (Success (), [a2]))"
proof -
  define a1 where "a1 = \<lparr>appt_id = ''a1'', appt_client_id = ''c1'', appt_lawyer_id = ''l1'',
              appointment_date = ''2025-03-01'', appointment_time = ''10:00'',
              appt_title = ''Consultation'', appt_description = None,
              meeting_type = Some ''video'', appt_status = ''scheduled''\<rparr>"
  define a2 where "a2 = \<lparr>appt_id = ''a2'', appt_client_id = ''c2'', appt_lawyer_id = ''l1'',
              appointment_date = ''2025-03-02'', appointment_time = ''11:00'',
              appt_title = ''Consultation'', appt_description = None,
              meeting_type = None, appt_status = ''confirmed''\<rparr>"
  have h: "filter (\<lambda>r. appt_id r = ''a1'') [a1, a2] = [a1]"
    by (simp add: a1_def a2_def)
  have m: "''a1'' \<in> appt_id ` set [a1, a2]"
    by (simp add: a1_def)
  have t1: "map (\<lambda>r. if appt_id r = ''a1'' then r\<lparr>appt_status := ''cancelled''\<rparr> else r) [a1, a2]
            = [a1\<lparr>appt_status := ''cancelled''\<rparr>, a2]"
    by (simp add: a1_def a2_def)
  have t2: "filter (\<lambda>r. appt_id r \<noteq> ''a1'') [a1, a2] = [a2]"
    by (simp add: a1_def a2_def)
  have "cancelAppointment None ''a1'' [a1, a2] =
           (Success (Some (a1\<lparr>appt_status := ''cancelled''\<rparr>)),
            [a1\<lparr>appt_status := ''cancelled''\<rparr>, a2])
       \<and> deleteAppointment None ''a1'' [a1, a2] = (Success (), [a2])"
    using cancel_soft_delete_hard [of None "''a1''" "[a1, a2]" a1] h m t1 t2
    by (simp add: prod_eq_iff)
  with h show ?thesis
    unfolding a1_def a2_def Let_def by blast
qed

subsection \<open>Payment processing\<close>

lemma show_nat_digits: "list_all is_digit (show_nat n)"
proof (induction n rule: show_nat.induct)
  case (1 n)
  have d: "\<And>k. k < 10 \<Longrightarrow> is_digit (''0123456789'' ! k)"
  proof -
    fix k :: nat assume "k < 10"
    then have "k \<in> {0,1,2,3,4,5,6,7,8,9}" by auto
    then show "is_digit (''0123456789'' ! k)"
      by (auto simp: is_digit_def)
  qed
  show ?case
  proof (cases "n < 10")
    case True
    then show ?thesis using d [of n] by (subst show_nat.simps) simp
  next
    case False
    then show ?thesis using 1 d [of "n mod 10"] by (subst show_nat.simps) simp
  qed
qed

lemma base36_lower_cases:
  assumes "base36_lower c"
  shows "c = CHR ''0'' \<or> c = CHR ''1'' \<or> c = CHR ''2'' \<or> c = CHR ''3'' \<or> c = CHR ''4''
    \<or> c = CHR ''5'' \<or> c = CHR ''6'' \<or> c = CHR ''7'' \<or> c = CHR ''8'' \<or> c = CHR ''9''
    \<or> c = CHR ''a'' \<or> c = CHR ''b'' \<or> c = CHR ''c'' \<or> c = CHR ''d'' \<or> c = CHR ''e''
    \<or> c = CHR ''f'' \<or> c = CHR ''g'' \<or> c = CHR ''h'' \<or> c = CHR ''i'' \<or> c = CHR ''j''
    \<or> c = CHR ''k'' \<or> c = CHR ''l'' \<or> c = CHR ''m'' \<or> c = CHR ''n'' \<or> c = CHR ''o''
    \<or> c = CHR ''p'' \<or> c = CHR ''q'' \<or> c = CHR ''r'' \<or> c = CHR ''s'' \<or> c = CHR ''t''
    \<or> c = CHR ''u'' \<or> c = CHR ''v'' \<or> c = CHR ''w'' \<or> c = CHR ''x'' \<or> c = CHR ''y''
    \<or> c = CHR ''z''"
  using assms by (simp add: base36_lower_def)

lemma upper_char_base36: "base36_lower c \<Longrightarrow> base36_upper (upper_char c)"
  by (drule base36_lower_cases, elim disjE; hypsubst; simp add: upper_char_def;
      simp add: base36_upper_def)

lemma random_part_base36:
  assumes "list_all base36_lower ds"
  shows "list_all base36_upper (toUpperCase (substring 2 9 (''0.'' @ ds)))"
proof -
  have "list_all base36_lower (take 7 ds)"
    using assms by (auto simp: list_all_iff dest: in_set_takeD)
  then show ?thesis
    by (simp add: substring_def toUpperCase_def list_all_iff upper_char_base36)
qed

lemma processPayment_invalid_amount:
  "pd_amount pd = None \<or> (\<exists>a. pd_amount pd = Some a \<and> a \<le> 0) \<Longrightarrow>
   processPayment env pd tbl = (Failure ''Invalid payment amount'', tbl)"
  by (auto simp: processPayment_def)

lemma processPayment_no_appointment:
  "pd_amount pd = Some a \<Longrightarrow> 0 < a \<Longrightarrow> falsy (pd_appointmentId pd) \<Longrightarrow>
   processPayment env pd tbl = (Failure ''Appointment ID required'', tbl)"
  by (auto simp: processPayment_def falsy_def split: option.splits)

lemma processPayment_backend_error:
  "pd_amount pd = Some a \<Longrightarrow> 0 < a \<Longrightarrow> pd_appointmentId pd = Some aid \<Longrightarrow> aid \<noteq> [] \<Longrightarrow>
   pe_update_fault env = Some msg \<Longrightarrow>
   processPayment env pd tbl = (Failure msg, tbl)"
  by (auto simp: processPayment_def db_update_def Let_def)

lemma processPayment_success:
  "pd_amount pd = Some a \<Longrightarrow> 0 < a \<Longrightarrow> pd_appointmentId pd = Some aid \<Longrightarrow> aid \<noteq> [] \<Longrightarrow>
   pe_update_fault env = None \<Longrightarrow>
   processPayment env pd tbl =
     (Success (''TXN-'' @ show_nat (pe_timestamp env) @ ''-'' @
                 toUpperCase (substring 2 9 (pe_random36 env)),
               \<lparr>pr_appointment_id = aid, pr_amount = a,
                pr_currency = (if falsy (pd_currency pd) then ''PKR''
                               else (case pd_currency pd of Some c \<Rightarrow> c | None \<Rightarrow> ''PKR'')),
                pr_payment_method = pd_paymentMethod pd, pr_status = ''completed'',
                pr_transaction_id = ''TXN-'' @ show_nat (pe_timestamp env) @ ''-'' @
                 toUpperCase (substring 2 9 (pe_random36 env)),
                pr_payment_date = pe_date_iso env\<rparr>),
      map (\<lambda>r. if appt_id r = aid then r\<lparr>appt_status := ''confirmed''\<rparr> else r) tbl)"
  by (auto simp: processPayment_def db_update_def Let_def generateTransactionId_def)

text \<open>
  C9: \<open>processPayment\<close> with a missing, zero or negative amount, or with no appointment id,
  returns a failure and the appointments table is as before. When both checks pass and the
  backend reports no error, it returns success with the transaction id
  \<open>TXN-<timestamp>-<random>\<close> (the timestamp in decimal digits; the random part the
  characters 2 to 8 of the base 36 rendering, in upper case) and the rows with the given
  appointment id have status \<open>'confirmed'\<close>, every other row and column as before.
\<close>

theorem processPayment_validates_then_confirms:
  "(pd_amount pd = None \<or> (\<exists>a. pd_amount pd = Some a \<and> a \<le> 0) \<longrightarrow>
      processPayment env pd tbl = (Failure ''Invalid payment amount'', tbl))
   \<and> (\<forall>a. pd_amount pd = Some a \<and> 0 < a \<and> falsy (pd_appointmentId pd) \<longrightarrow>
      processPayment env pd tbl = (Failure ''Appointment ID required'', tbl))
   \<and> (\<forall>a aid. pd_amount pd = Some a \<and> 0 < a \<and> pd_appointmentId pd = Some aid \<and> aid \<noteq> []
         \<and> pe_update_fault env = None \<longrightarrow>
      processPayment env pd tbl =
        (Success (''TXN-'' @ show_nat (pe_timestamp env) @ ''-'' @
                    toUpperCase (substring 2 9 (pe_random36 env)),
                  \<lparr>pr_appointment_id = aid, pr_amount = a,
                   pr_currency = (if falsy (pd_currency pd) then ''PKR''
                                  else (case pd_currency pd of Some c \<Rightarrow> c | None \<Rightarrow> ''PKR'')),
                   pr_payment_method = pd_paymentMethod pd, pr_status = ''completed'',
                   pr_transaction_id = ''TXN-'' @ show_nat (pe_timestamp env) @ ''-'' @
                    toUpperCase (substring 2 9 (pe_random36 env)),
                   pr_payment_date = pe_date_iso env\<rparr>),
         map (\<lambda>r. if appt_id r = aid then r\<lparr>appt_status := ''confirmed''\<rparr> else r) tbl))
   \<and> list_all is_digit (show_nat (pe_timestamp env))
   \<and> (\<forall>ds. pe_random36 env = ''0.'' @ ds \<and> list_all base36_lower ds \<longrightarrow>
         list_all base36_upper (toUpperCase (substring 2 9 (pe_random36 env))))"
proof -
  have a: "pd_amount pd = None \<or> (\<exists>a. pd_amount pd = Some a \<and> a \<le> 0) \<longrightarrow>
      processPayment env pd tbl = (Failure ''Invalid payment amount'', tbl)"
    using processPayment_invalid_amount [of pd env tbl] by blast
  have b: "\<forall>a. pd_amount pd = Some a \<and> 0 < a \<and> falsy (pd_appointmentId pd) \<longrightarrow>
      processPayment env pd tbl = (Failure ''Appointment ID required'', tbl)"
    using processPayment_no_appointment [of pd _ env tbl] by blast
  have c: "\<forall>ds. pe_random36 env = ''0.'' @ ds \<and> list_all base36_lower ds \<longrightarrow>
         list_all base36_upper (toUpperCase (substring 2 9 (pe_random36 env)))"
    using random_part_base36 by metis
  show ?thesis
    using a b c show_nat_digits [of "pe_timestamp env"] processPayment_success [of pd _ _ env tbl]
    by blast
qed

theorem processPayment_validates_then_confirms_witness:
  "(let a1 = \<lparr>appt_id = ''a1'', appt_client_id = ''c1'', appt_lawyer_id = ''l1'',
              appointment_date = ''2025-03-01'', appointment_time = ''10:00'',
              appt_title = ''Consultation'', appt_description = None,
              meeting_type = Some ''video'', appt_status = ''scheduled''\<rparr>;
        env = \<lparr>pe_timestamp = 1700000000123, pe_random36 = ''0.4fzyo82mvyr'',
               pe_date_iso = ''2023-11-14T22:13:20.123Z'', pe_update_fault = None\<rparr>;
        pd = \<lparr>pd_amount = Some 1150, pd_appointmentId = Some ''a1'',
              pd_currency = None, pd_paymentMethod = Some ''card''\<rparr>
    in processPayment env pd [a1] =
         (Success (''TXN-1700000000123-4FZYO82'',
                   \<lparr>pr_appointment_id = ''a1'', pr_amount = 1150, pr_currency = ''PKR'',
                    pr_payment_method = Some ''card'', pr_status = ''completed'',
                    pr_transaction_id = ''TXN-1700000000123-4FZYO82'',
                    pr_payment_date = ''2023-11-14T22:13:20.123Z''\<rparr>),
          [a1\<lparr>appt_status := ''confirmed''\<rparr>])
       \<and> processPayment env (pd\<lparr>pd_amount := Some 0\<rparr>) [a1] =
           (Failure ''Invalid payment amount'', [a1])
       \<and> processPayment env (pd\<lparr>pd_appointmentId := None\<rparr>) [a1] =
           (Failure ''Appointment ID required'', [a1])
       \<and> pe_random36 env = ''0.'' @ ''4fzyo82mvyr'' \<and> list_all base36_lower ''4fzyo82mvyr''
       \<and> list_all base36_upper (toUpperCase (substring 2 9 (pe_random36 env))))"
proof -
  define a1 where "a1 = \<lparr>appt_id = ''a1'', appt_client_id = ''c1'', appt_lawyer_id = ''l1'',
              appointment_date = ''2025-03-01'', appointment_time = ''10:00'',
              appt_title = ''Consultation'', appt_description = None,
              meeting_type = Some ''video'', appt_status = ''scheduled''\<rparr>"
  define env where "env = \<lparr>pe_timestamp = 1700000000123, pe_random36 = ''0.4fzyo82mvyr'',
               pe_date_iso = ''2023-11-14T22:13:20.123Z'', pe_update_fault = None\<rparr>"
  define pd where "pd = \<lparr>pd_amount = Some 1150, pd_appointmentId = Some ''a1'',
              pd_currency = None, pd_paymentMethod = Some ''card''\<rparr>"
  have tid: "''TXN-'' @ show_nat (pe_timestamp env) @ ''-'' @
               toUpperCase (substring 2 9 (pe_random36 env)) = ''TXN-1700000000123-4FZYO82''"
    by (simp add: env_def substring_def toUpperCase_def upper_char_def)
  have ok: "processPayment env pd [a1] =
         (Success (''TXN-1700000000123-4FZYO82'',
                   \<lparr>pr_appointment_id = ''a1'', pr_amount = 1150, pr_currency = ''PKR'',
                    pr_payment_method = Some ''card'', pr_status = ''completed'',
                    pr_transaction_id = ''TXN-1700000000123-4FZYO82'',
                    pr_payment_date = ''2023-11-14T22:13:20.123Z''\<rparr>),
          [a1\<lparr>appt_status := ''confirmed''\<rparr>])"
    using processPayment_validates_then_confirms [of pd env "[a1]"] tid
    by (simp add: pd_def falsy_def) (simp add: env_def a1_def)
  have bad1: "processPayment env (pd\<lparr>pd_amount := Some 0\<rparr>) [a1] =
           (Failure ''Invalid payment amount'', [a1])"
    using processPayment_validates_then_confirms [of "pd\<lparr>pd_amount := Some 0\<rparr>" env "[a1]"]
    by simp
  have bad2: "processPayment env (pd\<lparr>pd_appointmentId := None\<rparr>) [a1] =
           (Failure ''Appointment ID required'', [a1])"
    using processPayment_validates_then_confirms [of "pd\<lparr>pd_appointmentId := None\<rparr>" env "[a1]"]
    by (simp add: pd_def falsy_def)
  have r36: "pe_random36 env = ''0.'' @ ''4fzyo82mvyr''"
    by (simp add: env_def)
  have low: "list_all base36_lower ''4fzyo82mvyr''"
    by (simp add: base36_lower_def)
  have up: "list_all base36_upper (toUpperCase (substring 2 9 (pe_random36 env)))"
    using processPayment_validates_then_confirms [of pd env "[a1]"] r36 low by blast
  from ok bad1 bad2 r36 low up show ?thesis
    unfolding a1_def env_def pd_def Let_def by blast
qed

subsection \<open>Marking messages as read\<close>

lemma mark_table:
  "snd (markMessagesAsRead fault now c u ms) =
     (if fault = None
      then map (\<lambda>m. if msg_conversation_id m = c \<and> msg_sender_id m \<noteq> u \<and> \<not> is_read m
                    then m\<lparr>is_read := True, read_at := Some now\<rparr> else m) ms
      else ms)"
  by (auto simp: markMessagesAsRead_def db_update_def split: option.splits prod.splits)

lemma mark_result:
  "fst (markMessagesAsRead fault now c u ms) =
     (case fault of None \<Rightarrow> Success () | Some msg \<Rightarrow> Failure msg)"
  by (auto simp: markMessagesAsRead_def db_update_def split: option.splits prod.splits)

lemma mark_twice:
  "snd (markMessagesAsRead fault' now' c u (snd (markMessagesAsRead None now c u ms))) =
   snd (markMessagesAsRead None now c u ms)"
  unfolding mark_table by (induction ms) auto

text \<open>
  C6: \<open>markMessagesAsRead(conversationId, userId)\<close> keeps every row in place; a message that
  was read stays read; a row that changes was an unread message of that conversation not
  sent by \<open>userId\<close>, and it changes to read (with its \<open>read_at\<close> stamp). After a call that
  succeeded, a second call leaves the table as it is (no message flips back, whatever the
  backend answers), and it returns success when the backend reports no error.
\<close>

theorem markMessagesAsRead_idempotent:
  "length (snd (markMessagesAsRead fault now c u ms)) = length ms
   \<and> (\<forall>i < length ms.
        (is_read (ms ! i) \<longrightarrow> is_read (snd (markMessagesAsRead fault now c u ms) ! i))
        \<and> (snd (markMessagesAsRead fault now c u ms) ! i \<noteq> ms ! i \<longrightarrow>
             msg_conversation_id (ms ! i) = c \<and> msg_sender_id (ms ! i) \<noteq> u
             \<and> \<not> is_read (ms ! i)
             \<and> snd (markMessagesAsRead fault now c u ms) ! i =
                 (ms ! i)\<lparr>is_read := True, read_at := Some now\<rparr>))
   \<and> snd (markMessagesAsRead fault' now' c u (snd (markMessagesAsRead None now c u ms))) =
       snd (markMessagesAsRead None now c u ms)
   \<and> fst (markMessagesAsRead None now' c u (snd (markMessagesAsRead None now c u ms))) =
       Success ()
   \<and> fst (markMessagesAsRead None now c u ms) = Success ()"
proof -
  have len: "length (snd (markMessagesAsRead fault now c u ms)) = length ms"
    by (simp add: mark_table)
  have rows: "\<forall>i < length ms.
        (is_read (ms ! i) \<longrightarrow> is_read (snd (markMessagesAsRead fault now c u ms) ! i))
        \<and> (snd (markMessagesAsRead fault now c u ms) ! i \<noteq> ms ! i \<longrightarrow>
             msg_conversation_id (ms ! i) = c \<and> msg_sender_id (ms ! i) \<noteq> u
             \<and> \<not> is_read (ms ! i)
             \<and> snd (markMessagesAsRead fault now c u ms) ! i =
                 (ms ! i)\<lparr>is_read := True, read_at := Some now\<rparr>)"
    by (simp add: mark_table)
  show ?thesis
    using len rows mark_twice [of fault' now' c u now ms]
    by (simp add: mark_result)
qed

theorem markMessagesAsRead_idempotent_witness:
  "(let m1 = \<lparr>msg_id = ''m1'', msg_conversation_id = ''k1'', msg_sender_id = ''lawyer1'',
              message_text = ''Hello'', attachment_url = None, attachment_name = None,
              attachment_type = None, msg_created_at = ''2025-03-01T10:00:00.000Z'',
              is_read = False, read_at = None\<rparr>;
        m2 = \<lparr>msg_id = ''m2'', msg_conversation_id = ''k1'', msg_sender_id = ''client1'',
              message_text = ''Hi'', attachment_url = None, attachment_name = None,
              attachment_type = None, msg_created_at = ''2025-03-01T10:01:00.000Z'',
              is_read = False, read_at = None\<rparr>
    in (0::nat) < length [m1, m2]
       \<and> snd (markMessagesAsRead None ''t1'' ''k1'' ''client1'' [m1, m2]) ! 0 \<noteq> [m1, m2] ! 0
       \<and> snd (markMessagesAsRead None ''t1'' ''k1'' ''client1'' [m1, m2]) =
           [m1\<lparr>is_read := True, read_at := Some ''t1''\<rparr>, m2]
       \<and> markMessagesAsRead None ''t2'' ''k1'' ''client1''
             (snd (markMessagesAsRead None ''t1'' ''k1'' ''client1'' [m1, m2])) =
           (Success (), [m1\<lparr>is_read := True, read_at := Some ''t1''\<rparr>, m2]))"
proof -
  define m1 where "m1 = \<lparr>msg_id = ''m1'', msg_conversation_id = ''k1'', msg_sender_id = ''lawyer1'',
              message_text = ''Hello'', attachment_url = None, attachment_name = None,
              attachment_type = None, msg_created_at = ''2025-03-01T10:00:00.000Z'',
              is_read = False, read_at = None\<rparr>"
  define m2 where "m2 = \<lparr>msg_id = ''m2'', msg_conversation_id = ''k1'', msg_sender_id = ''client1'',
              message_text = ''Hi'', attachment_url = None, attachment_name = None,
              attachment_type = None, msg_created_at = ''2025-03-01T10:01:00.000Z'',
              is_read = False, read_at = None\<rparr>"
  have first: "snd (markMessagesAsRead None ''t1'' ''k1'' ''client1'' [m1, m2]) =
           [m1\<lparr>is_read := True, read_at := Some ''t1''\<rparr>, m2]"
    by (simp add: markMessagesAsRead_def db_update_def m1_def m2_def)
  have ne: "snd (markMessagesAsRead None ''t1'' ''k1'' ''client1'' [m1, m2]) ! 0 \<noteq> [m1, m2] ! 0"
    unfolding first by (simp add: m1_def)
  have second: "markMessagesAsRead None ''t2'' ''k1'' ''client1''
             (snd (markMessagesAsRead None ''t1'' ''k1'' ''client1'' [m1, m2])) =
           (Success (), [m1\<lparr>is_read := True, read_at := Some ''t1''\<rparr>, m2])"
    using markMessagesAsRead_idempotent
            [of None "''t1''" "''k1''" "''client1''" "[m1, m2]" None "''t2''"] first
    by (simp add: prod_eq_iff)
  from first ne second show ?thesis
    unfolding m1_def m2_def Let_def by simp
qed

subsection \<open>Recomputing the lawyer's rating\<close>













subsection \<open>Looking a conversation up or creating it\<close>







text \<open>
  When the lookup itself fails, the source reads \<open>data\<close> only, takes the pair for absent and
  inserts: this is why C5 asks for an answered lookup.
\<close>

lemma getOrCreateConversation_lookup_error_inserts:
  "ce_find_fault env = Some msg \<Longrightarrow> ce_insert_fault env = None \<Longrightarrow>
   length (snd (getOrCreateConversation env u1 u2 users cs)) = Suc (length cs)"
  by (simp add: getOrCreateConversation_def Let_def db_select_def db_insert_def single_def
        maybeSingle_def split: prod.splits)

text \<open>
  C7 does not hold of the code. The first user has no profile row (its type does not
  resolve) and the second user is a client: the fallback makes the first user the client
  and the client the lawyer side, and the conversation is stored that way.
\<close>

theorem getOrCreateConversation_client_as_lawyer:
  "(let client = \<lparr>user_id = ''c1'', user_email = ''c1@brief.case'', user_type = Some ''client'',
                  first_name = Some ''Ann'', last_name = Some ''Lee'', profile_photo_url = None\<rparr>;
        env = \<lparr>ce_user1_fault = None, ce_user2_fault = None, ce_find_fault = None,
               ce_insert_fault = None, ce_new_id = ''k1'', ce_now = ''2025-03-01T10:00:00.000Z''\<rparr>;
        row = \<lparr>conv_id = ''k1'', conv_client_id = ''x9'', conv_lawyer_id = ''c1'',
               conv_created_at = ''2025-03-01T10:00:00.000Z'', last_message_at = None\<rparr>
    in resp_data (single (db_select None (\<lambda>u. user_id u = ''x9'') [client])) = None
       \<and> resp_data (single (db_select None (\<lambda>u. user_id u = ''c1'') [client])) = Some client
       \<and> determine_roles None (Some client) ''x9'' ''c1'' = (''x9'', ''c1'')
       \<and> resolved_roles env ''x9'' ''c1'' [client] = (''x9'', ''c1'')
       \<and> getOrCreateConversation env ''x9'' ''c1'' [client] [] = (Success row, [row]))"
  by (simp add: getOrCreateConversation_def resolved_roles_def Let_def db_select_def
        db_insert_def single_def maybeSingle_def determine_roles_def profile_user_type_def)

subsection \<open>Signup validation\<close>

text \<open>
  The executable \<open>isValidEmail\<close> and \<open>js_includes\<close> agree with the regular expression
  \<open>/^[^\s@]+@[^\s@]+\.[^\s@]+$/\<close> and with \<open>String.prototype.includes\<close>: a match is a
  split of the string into the groups of the expression, an inclusion a split around the
  substring.
\<close>

lemma email_char_dot: "email_char CHR ''.''"
  by (simp add: email_char_def is_space_def)

lemma isValidEmail_matches:
  assumes "a \<noteq> []" "b \<noteq> []" "c \<noteq> []"
      and "list_all email_char a" "list_all email_char b" "list_all email_char c"
  shows "isValidEmail (a @ ''@'' @ b @ ''.'' @ c)"
proof -
  have na: "\<forall>x \<in> set a. x \<noteq> CHR ''@''"
    using assms(4) by (auto simp: list_all_iff email_char_def)
  have tw: "takeWhile (\<lambda>c. c \<noteq> CHR ''@'') (a @ CHR ''@'' # b @ CHR ''.'' # c) = a"
    using na by (simp add: takeWhile_tail)
  have dw: "dropWhile (\<lambda>c. c \<noteq> CHR ''@'') (a @ CHR ''@'' # b @ CHR ''.'' # c) =
              CHR ''@'' # b @ CHR ''.'' # c"
    using na by (simp add: dropWhile_append3)
  have host: "list_all email_char (b @ CHR ''.'' # c)"
    using assms(5,6) email_char_dot by simp
  have "butlast (tl (b @ CHR ''.'' # c)) = tl b @ CHR ''.'' # butlast c"
    using assms(2,3) by (simp add: butlast_append)
  then have dot: "CHR ''.'' \<in> set (butlast (tl (b @ CHR ''.'' # c)))"
    by simp
  show ?thesis
    using tw dw host dot assms(1,4)
    by (simp add: isValidEmail_def)
qed

lemma isValidEmail_split:
  assumes "isValidEmail s"
  shows "\<exists>a b c. s = a @ ''@'' @ b @ ''.'' @ c \<and> a \<noteq> [] \<and> b \<noteq> [] \<and> c \<noteq> []
           \<and> list_all email_char a \<and> list_all email_char b \<and> list_all email_char c"
proof -
  define a where "a = takeWhile (\<lambda>c. c \<noteq> CHR ''@'') s"
  define rest where "rest = dropWhile (\<lambda>c. c \<noteq> CHR ''@'') s"
  from assms obtain x host where r: "rest = x # host"
    and a1: "a \<noteq> []" and a2: "list_all email_char a" and h: "list_all email_char host"
    and dot: "CHR ''.'' \<in> set (butlast (tl host))"
    by (auto simp: isValidEmail_def a_def rest_def Let_def split: list.splits)
  have "rest \<noteq> []" using r by simp
  then have "\<not> (hd rest \<noteq> CHR ''@'')"
    unfolding rest_def by (rule hd_dropWhile)
  then have x: "x = CHR ''@''" using r by simp
  have s: "s = a @ CHR ''@'' # host"
    using r x unfolding a_def rest_def by (metis takeWhile_dropWhile_id)
  from dot obtain pre post where bt: "butlast (tl host) = pre @ CHR ''.'' # post"
    by (auto dest: split_list)
  then have ne: "tl host \<noteq> []" by auto
  then have hne: "host \<noteq> []" by auto
  have th: "tl host = pre @ CHR ''.'' # post @ [last (tl host)]"
    using append_butlast_last_id [OF ne] bt by simp
  have hh: "host = (hd host # pre) @ CHR ''.'' # (post @ [last (tl host)])"
    using hne th by (cases host) simp_all
  define b where "b = hd host # pre"
  define c where "c = post @ [last (tl host)]"
  have hbc: "host = b @ CHR ''.'' # c"
    using hh by (simp add: b_def c_def)
  have "list_all email_char b" "list_all email_char c"
    using h unfolding hbc by simp_all
  moreover have "b \<noteq> []" "c \<noteq> []" by (simp_all add: b_def c_def)
  moreover have "s = a @ ''@'' @ b @ ''.'' @ c" using s hbc by simp
  ultimately show ?thesis using a1 a2 by blast
qed

lemma isValidEmail_regex:
  "isValidEmail s \<longleftrightarrow>
     (\<exists>a b c. s = a @ ''@'' @ b @ ''.'' @ c \<and> a \<noteq> [] \<and> b \<noteq> [] \<and> c \<noteq> []
        \<and> list_all email_char a \<and> list_all email_char b \<and> list_all email_char c)"
  using isValidEmail_split [of s] isValidEmail_matches by blast

lemma starts_with_prefix: "starts_with s p \<longleftrightarrow> (\<exists>q. s = p @ q)"
  by (induction s p rule: starts_with.induct) auto

lemma js_includes_infix: "js_includes s sub \<longleftrightarrow> (\<exists>p q. s = p @ sub @ q)"
proof (induction s)
  case Nil
  then show ?case by auto
next
  case (Cons c cs)
  show ?case
  proof
    assume "js_includes (c # cs) sub"
    then consider "starts_with (c # cs) sub" | "js_includes cs sub" by auto
    then show "\<exists>p q. c # cs = p @ sub @ q"
    proof cases
      case 1
      then obtain q where "c # cs = sub @ q" by (auto simp: starts_with_prefix)
      then have "c # cs = [] @ sub @ q" by simp
      then show ?thesis by blast
    next
      case 2
      with Cons.IH obtain p q where "cs = p @ sub @ q" by blast
      then have "c # cs = (c # p) @ sub @ q" by simp
      then show ?thesis by blast
    qed
  next
    assume "\<exists>p q. c # cs = p @ sub @ q"
    then obtain p q where e: "c # cs = p @ sub @ q" by blast
    show "js_includes (c # cs) sub"
    proof (cases p)
      case Nil
      with e have "starts_with (c # cs) sub" by (auto simp: starts_with_prefix)
      then show ?thesis by simp
    next
      case (Cons x p')
      with e have "cs = p' @ sub @ q" by simp
      with Cons.IH have "js_includes cs sub" by blast
      then show ?thesis by simp
    qed
  qed
qed

lemma verification_messages_kept:
  "verification_error_message ''All fields are required'' = ''All fields are required''"
  "verification_error_message ''Invalid email format'' = ''Invalid email format''"
  "verification_error_message ''Password must be at least 8 characters'' =
     ''Password must be at least 8 characters''"
  "verification_error_message ''Password must contain at least one uppercase letter'' =
     ''Password must contain at least one uppercase letter''"
  "verification_error_message ''Password must contain at least one lowercase letter'' =
     ''Password must contain at least one lowercase letter''"
  "verification_error_message ''Password must contain at least one number'' =
     ''Password must contain at least one number''"
  by (simp_all add: verification_error_message_def)

lemma legacy_messages_kept:
  "legacy_error_message ''All fields are required'' = ''All fields are required''"
  "legacy_error_message ''Invalid email format'' = ''Invalid email format''"
  "legacy_error_message ''Password must be at least 6 characters'' =
     ''Password must be at least 6 characters''"
  by (simp_all add: legacy_error_message_def)

lemma signUpWithVerification_try_missing:
  assumes "falsy (sp_email p) \<or> falsy (sp_password p) \<or> falsy (sp_accountType p)
           \<or> falsy (sp_cnic p)"
  shows "signUpWithVerification_try env p st = (Inl ''All fields are required'', st)"
  using assms by (elim disjE) (simp_all add: signUpWithVerification_try_def Let_def)

lemma signUpWithVerification_try_email:
  assumes "\<not> (falsy (sp_email p) \<or> falsy (sp_password p) \<or> falsy (sp_accountType p)
           \<or> falsy (sp_cnic p))"
      and "\<not> isValidEmail (str (sp_email p))"
  shows "signUpWithVerification_try env p st = (Inl ''Invalid email format'', st)"
  using assms by (simp add: signUpWithVerification_try_def Let_def)

lemma signUpWithVerification_try_password:
  assumes "\<not> (falsy (sp_email p) \<or> falsy (sp_password p) \<or> falsy (sp_accountType p)
           \<or> falsy (sp_cnic p))"
      and "isValidEmail (str (sp_email p))"
      and "weak_password (str (sp_password p))"
  shows "signUpWithVerification_try env p st \<in>
           (\<lambda>msg. (Inl msg, st)) ` set [''Password must be at least 8 characters'',
                ''Password must contain at least one uppercase letter'',
                ''Password must contain at least one lowercase letter'',
                ''Password must contain at least one number'']"
proof -
  consider (short) "length (str (sp_password p)) < 8"
    | (upper) "\<not> length (str (sp_password p)) < 8" "\<not> list_ex is_upper (str (sp_password p))"
    | (lower) "\<not> length (str (sp_password p)) < 8" "list_ex is_upper (str (sp_password p))"
              "\<not> list_ex is_lower (str (sp_password p))"
    | (number) "\<not> length (str (sp_password p)) < 8" "list_ex is_upper (str (sp_password p))"
              "list_ex is_lower (str (sp_password p))" "\<not> list_ex is_number (str (sp_password p))"
    using assms(3) unfolding weak_password_def by blast
  then show ?thesis
  proof cases
    case short
    with assms(1,2) show ?thesis by (simp add: signUpWithVerification_try_def Let_def)
  next
    case upper
    with assms(1,2) show ?thesis by (simp add: signUpWithVerification_try_def Let_def)
  next
    case lower
    with assms(1,2) show ?thesis by (simp add: signUpWithVerification_try_def Let_def)
  next
    case number
    with assms(1,2) show ?thesis by (simp add: signUpWithVerification_try_def Let_def)
  qed
qed

lemma signUp_try_missing:
  assumes "falsy email \<or> falsy password \<or> falsy fullName \<or> falsy accountType \<or> falsy cnic"
  shows "signUp_try env email password fullName accountType cnic photo st =
           (Inl ''All fields are required'', st)"
  using assms by (elim disjE) (simp_all add: signUp_try_def)

lemma signUp_try_email:
  assumes "\<not> (falsy email \<or> falsy password \<or> falsy fullName \<or> falsy accountType \<or> falsy cnic)"
      and "\<not> isValidEmail (str email)"
  shows "signUp_try env email password fullName accountType cnic photo st =
           (Inl ''Invalid email format'', st)"
  using assms by (simp add: signUp_try_def)

lemma signUp_try_password:
  assumes "\<not> (falsy email \<or> falsy password \<or> falsy fullName \<or> falsy accountType \<or> falsy cnic)"
      and "isValidEmail (str email)"
      and "length (str password) < 6"
  shows "signUp_try env email password fullName accountType cnic photo st =
           (Inl ''Password must be at least 6 characters'', st)"
  using assms by (simp add: signUp_try_def)

lemma signUpWithVerification_invalid:
  assumes "falsy (sp_email p) \<or> falsy (sp_password p) \<or> falsy (sp_accountType p)
           \<or> falsy (sp_cnic p) \<or> \<not> isValidEmail (str (sp_email p))
           \<or> weak_password (str (sp_password p))"
  shows "snd (signUpWithVerification env p st) = st
         \<and> fst (signUpWithVerification env p st) \<in>
             SignupFailure ` set [''All fields are required'', ''Invalid email format'',
                ''Password must be at least 8 characters'',
                ''Password must contain at least one uppercase letter'',
                ''Password must contain at least one lowercase letter'',
                ''Password must contain at least one number'']"
proof (cases "falsy (sp_email p) \<or> falsy (sp_password p) \<or> falsy (sp_accountType p)
           \<or> falsy (sp_cnic p)")
  case True
  show ?thesis
    by (simp add: signUpWithVerification_def signUpWithVerification_try_missing [OF True]
          verification_messages_kept)
next
  case present: False
  show ?thesis
  proof (cases "isValidEmail (str (sp_email p))")
    case False
    show ?thesis
      by (simp add: signUpWithVerification_def signUpWithVerification_try_email [OF present False]
            verification_messages_kept)
  next
    case True
    with assms present have weak: "weak_password (str (sp_password p))" by blast
    from signUpWithVerification_try_password [OF present True weak, of env st]
    obtain msg where m: "msg \<in> set [''Password must be at least 8 characters'',
                ''Password must contain at least one uppercase letter'',
                ''Password must contain at least one lowercase letter'',
                ''Password must contain at least one number'']"
      and r: "signUpWithVerification_try env p st = (Inl msg, st)"
      by blast
    from m have "verification_error_message msg = msg"
      by (auto simp: verification_messages_kept)
    with m r show ?thesis
      by (auto simp: signUpWithVerification_def)
  qed
qed

lemma signUp_invalid:
  assumes "falsy email \<or> falsy password \<or> falsy fullName \<or> falsy accountType \<or> falsy cnic
           \<or> \<not> isValidEmail (str email) \<or> length (str password) < 6"
  shows "snd (signUp env email password fullName accountType cnic photo st) = st
         \<and> fst (signUp env email password fullName accountType cnic photo st) \<in>
             SignupFailure ` set [''All fields are required'', ''Invalid email format'',
                ''Password must be at least 6 characters'']"
proof (cases "falsy email \<or> falsy password \<or> falsy fullName \<or> falsy accountType \<or> falsy cnic")
  case True
  show ?thesis
    by (simp add: signUp_def signUp_try_missing [OF True] legacy_messages_kept)
next
  case present: False
  show ?thesis
  proof (cases "isValidEmail (str email)")
    case False
    show ?thesis
      by (simp add: signUp_def signUp_try_email [OF present False] legacy_messages_kept)
  next
    case True
    with assms present have short: "length (str password) < 6" by blast
    show ?thesis
      by (simp add: signUp_def signUp_try_password [OF present True short] legacy_messages_kept)
  qed
qed

text \<open>
  C4, as the specification states it, fails for the legacy \<open>signUp\<close>: its only password check
  is a length of at least 6. The password \<open>abcdefg\<close> is weak (7 characters, no upper case
  letter, no digit), and the call goes on to the backend: the auth identity \<open>u1\<close> and a
  profile row are created.
\<close>

theorem signUp_weak_password_counterexample:
  "(let u = \<lparr>au_id = ''u1'', au_email = ''ann@brief.case'',
             au_confirmed_at = Some ''2025-03-01T10:00:00.000Z'',
             au_identities = Some [''email'']\<rparr>;
        env = \<lparr>se_listUsers_rejects = None, se_select_fault = None, se_signUp_error = None,
               se_signUp_user = Some u, se_upload_url = None, se_users_insert_fault = None,
               se_lawyers_insert_fault = None, se_timestamp = 1700000000123\<rparr>;
        st0 = \<lparr>auth_users = [], users_tbl = [], lawyers_tbl = [], calls = []\<rparr>
    in weak_password ''abcdefg''
       \<and> signUp env (Some ''ann@brief.case'') (Some ''abcdefg'') (Some ''Ann Lee'')
             (Some ''Client'') (Some ''35202-1234567-1'') None st0 =
           (SignupSuccess False None u None,
            \<lparr>auth_users = [u],
             users_tbl = [\<lparr>user_id = ''u1'', user_email = ''ann@brief.case'',
                           user_type = Some ''client'', first_name = Some ''Ann'',
                           last_name = Some ''Lee'', profile_photo_url = None\<rparr>],
             lawyers_tbl = [],
             calls = [Auth_signUp ''ann@brief.case'', Insert_users ''u1'']\<rparr>))"
proof -
  have w: "weak_password ''abcdefg''"
    by (simp add: weak_password_def)
  have e: "isValidEmail ''ann@brief.case''"
    by (simp add: isValidEmail_def email_char_def is_space_def)
  have n: "split_space (trim ''Ann Lee'') = [''Ann'', ''Lee'']"
    by (simp add: trim_def is_space_def)
  have l: "toLowerCase ''Client'' = ''client''"
    by (simp add: toLowerCase_def lower_char_def)
  show ?thesis
    using w e n l
    by (simp add: Let_def signUp_def signUp_try_def auth_signUp_def falsy_def str_def
          db_insert_def)
qed

text \<open>
  C4 (amended): \<open>signUpWithVerification\<close> with a missing email, password, account type or
  CNIC, a malformed email, or a weak password (shorter than 8 characters, or lacking an
  upper case letter, a lower case letter or a digit) returns a failure with the validation
  message, and the backend state, its call log included, is as before: no backend call was
  made and nothing was created. The legacy \<open>signUp\<close> does the same for a missing email,
  password, full name, account type or CNIC, a malformed email, or a password shorter than
  6 characters.
\<close>

theorem signup_validation_short_circuits:
  "(falsy (sp_email p) \<or> falsy (sp_password p) \<or> falsy (sp_accountType p)
      \<or> falsy (sp_cnic p) \<or> \<not> isValidEmail (str (sp_email p))
      \<or> weak_password (str (sp_password p)) \<longrightarrow>
    snd (signUpWithVerification env p st) = st
    \<and> fst (signUpWithVerification env p st) \<in>
        SignupFailure ` set [''All fields are required'', ''Invalid email format'',
           ''Password must be at least 8 characters'',
           ''Password must contain at least one uppercase letter'',
           ''Password must contain at least one lowercase letter'',
           ''Password must contain at least one number''])
   \<and> (falsy email \<or> falsy password \<or> falsy fullName \<or> falsy accountType \<or> falsy cnic
        \<or> \<not> isValidEmail (str email) \<or> length (str password) < 6 \<longrightarrow>
      snd (signUp env email password fullName accountType cnic photo st) = st
      \<and> fst (signUp env email password fullName accountType cnic photo st) \<in>
          SignupFailure ` set [''All fields are required'', ''Invalid email format'',
             ''Password must be at least 6 characters''])"
  using signUpWithVerification_invalid [of p env st]
    signUp_invalid [of email password fullName accountType cnic env photo st]
  by blast

theorem signup_validation_short_circuits_witness:
  "(let p = \<lparr>sp_email = Some ''ann@brief.case'', sp_password = Some ''abcdefg1'',
             sp_firstName = Some ''Ann'', sp_lastName = Some ''Lee'',
             sp_accountType = Some ''Client'', sp_cnic = Some ''35202-1234567-1'',
             sp_photo = None\<rparr>;
        env = \<lparr>se_listUsers_rejects = None, se_select_fault = None, se_signUp_error = None,
               se_signUp_user = None, se_upload_url = None, se_users_insert_fault = None,
               se_lawyers_insert_fault = None, se_timestamp = 1700000000123\<rparr>;
        st0 = \<lparr>auth_users = [], users_tbl = [], lawyers_tbl = [], calls = []\<rparr>
    in weak_password ''abcdefg1''
       \<and> signUpWithVerification env p st0 =
           (SignupFailure ''Password must contain at least one uppercase letter'', st0)
       \<and> length ''abc'' < 6
       \<and> snd (signUp env (Some ''ann@brief.case'') (Some ''abc'') (Some ''Ann Lee'')
                 (Some ''Client'') (Some ''35202-1234567-1'') None st0) = st0)"
proof -
  define p where "p = \<lparr>sp_email = Some ''ann@brief.case'', sp_password = Some ''abcdefg1'',
             sp_firstName = Some ''Ann'', sp_lastName = Some ''Lee'',
             sp_accountType = Some ''Client'', sp_cnic = Some ''35202-1234567-1'',
             sp_photo = None\<rparr>"
  define env where "env = \<lparr>se_listUsers_rejects = None, se_select_fault = None, se_signUp_error = None,
               se_signUp_user = None, se_upload_url = None, se_users_insert_fault = None,
               se_lawyers_insert_fault = None, se_timestamp = 1700000000123\<rparr>"
  define st0 where "st0 = \<lparr>auth_users = [], users_tbl = [], lawyers_tbl = [], calls = []\<rparr>"
  have w: "weak_password ''abcdefg1''"
    by (simp add: weak_password_def is_upper_def)
  have wp: "weak_password (str (sp_password p))"
    using w by (simp add: p_def str_def)
  have e: "isValidEmail ''ann@brief.case''"
    by (simp add: isValidEmail_def email_char_def is_space_def)
  have unchanged: "snd (signUpWithVerification env p st0) = st0"
    using signup_validation_short_circuits [of p env st0] wp by blast
  have msg: "fst (signUpWithVerification env p st0) =
               SignupFailure ''Password must contain at least one uppercase letter''"
    using e
    by (simp add: signUpWithVerification_def signUpWithVerification_try_def Let_def p_def
          falsy_def str_def js_string_def is_upper_def verification_messages_kept)
  have one: "signUpWithVerification env p st0 =
           (SignupFailure ''Password must contain at least one uppercase letter'', st0)"
    using unchanged msg by (simp add: prod_eq_iff)
  have short: "length (str (Some ''abc'')) < 6"
    by (simp add: str_def)
  have two: "snd (signUp env (Some ''ann@brief.case'') (Some ''abc'') (Some ''Ann Lee'')
                 (Some ''Client'') (Some ''35202-1234567-1'') None st0) = st0"
    using signup_validation_short_circuits
            [of p env st0 "Some ''ann@brief.case''" "Some ''abc''" "Some ''Ann Lee''"
                "Some ''Client''" "Some ''35202-1234567-1''" None] short
    by blast
  from w one two show ?thesis
    unfolding p_def env_def st0_def Let_def by simp
qed

text \<open>
  A missing first or last name is not caught by \<open>signUpWithVerification\<close>: the full name is
  built by a template literal before the check and is never empty. The call goes on to the
  backend.
\<close>

lemma signUpWithVerification_missing_name_proceeds:
  "(let p = \<lparr>sp_email = Some ''ann@brief.case'', sp_password = Some ''Abcdefg1'',
             sp_firstName = None, sp_lastName = None,
             sp_accountType = Some ''Client'', sp_cnic = Some ''35202-1234567-1'',
             sp_photo = None\<rparr>;
        env = \<lparr>se_listUsers_rejects = None, se_select_fault = None, se_signUp_error = None,
               se_signUp_user = None, se_upload_url = None, se_users_insert_fault = None,
               se_lawyers_insert_fault = None, se_timestamp = 1700000000123\<rparr>;
        st0 = \<lparr>auth_users = [], users_tbl = [], lawyers_tbl = [], calls = []\<rparr>
    in calls (snd (signUpWithVerification env p st0)) =
         [Auth_admin_listUsers, Select_users_by_email ''ann@brief.case'',
          Auth_signUp ''ann@brief.case''])"
proof -
  have e: "isValidEmail ''ann@brief.case''"
    by (simp add: isValidEmail_def email_char_def is_space_def)
  have l: "toLowerCase ''ann@brief.case'' = ''ann@brief.case''"
    by (simp add: toLowerCase_def lower_char_def)
  show ?thesis
    using e l
    by (simp add: Let_def signUpWithVerification_def signUpWithVerification_try_def
          checkEmailExists_def auth_signUp_def falsy_def str_def js_string_def db_select_def
          maybeSingle_def is_upper_def is_lower_def is_number_def)
qed

subsection \<open>The shape of the collection fetches' results\<close>









end
